theory Spec2Isabelle
  imports Main "HOL-Library.AList"
begin

section \<open>JavaScript values\<close>

text \<open>
  The handlers of \<^verbatim>\<open>server.js\<close> read request bodies parsed from JSON and
  documents read from the document store. Both are JavaScript values. An object is an
  association list read with \<open>map_of\<close> (the first binding of a key is the one that counts).
  A number is an integer here: the handlers only ever test a number for being zero.
  \<open>JDate\<close> is a \<^verbatim>\<open>Date\<close> (and the store's timestamp read back), as a clock reading.
\<close>

datatype jsval =
    JUndefined
  | JNull
  | JBool bool
  | JNum int
  | JStr string
  | JDate nat
  | JArr "jsval list"
  | JObj "(string \<times> jsval) list"

type_synonym obj = "(string \<times> jsval) list"

text \<open>\<^verbatim>\<open>!!v\<close>: undefined, null, false, 0 and the empty string are falsy.\<close>

fun js_truthy :: "jsval \<Rightarrow> bool" where
  "js_truthy JUndefined = False"
| "js_truthy JNull = False"
| "js_truthy (JBool b) = b"
| "js_truthy (JNum n) = (n \<noteq> 0)"
| "js_truthy (JStr s) = (s \<noteq> [])"
| "js_truthy (JDate t) = True"
| "js_truthy (JArr xs) = True"
| "js_truthy (JObj fs) = True"

text \<open>\<^verbatim>\<open>a || b\<close>\<close>

definition js_or :: "jsval \<Rightarrow> jsval \<Rightarrow> jsval" where
  "js_or a b = (if js_truthy a then a else b)"

text \<open>\<^verbatim>\<open>o.k\<close> on an object: a missing property reads as undefined.\<close>

definition get_prop :: "obj \<Rightarrow> string \<Rightarrow> jsval" where
  "get_prop fs k = (case map_of fs k of None \<Rightarrow> JUndefined | Some v \<Rightarrow> v)"

text \<open>
  \<^verbatim>\<open>v?.k\<close>: undefined on null and undefined, the property on an object, and undefined on
  every other value (none of the property names the handlers read is defined on a
  string, a number, a boolean, a date or an array).
\<close>

definition js_member :: "jsval \<Rightarrow> string \<Rightarrow> jsval" where
  "js_member v k = (case v of JObj fs \<Rightarrow> get_prop fs k | _ \<Rightarrow> JUndefined)"

text \<open>A destructuring default \<^verbatim>\<open>{ k = d }\<close>: the default replaces undefined only.\<close>

definition js_default :: "jsval \<Rightarrow> jsval \<Rightarrow> jsval" where
  "js_default v d = (if v = JUndefined then d else v)"

text \<open>The own properties an object spread \<^verbatim>\<open>...v\<close> copies.\<close>

definition own_props :: "jsval \<Rightarrow> obj" where
  "own_props v = (case v of JObj fs \<Rightarrow> fs | _ \<Rightarrow> [])"

text \<open>
  \<^verbatim>\<open>{ ...a, ...b }\<close>: the properties of \<open>a\<close> in their place, with the value \<open>b\<close> gives
  them when it has one, then the properties only \<open>b\<close> has.
\<close>

definition assign :: "obj \<Rightarrow> obj \<Rightarrow> obj" where
  "assign a b =
     map (\<lambda>(k, v). (k, case map_of b k of None \<Rightarrow> v | Some v' \<Rightarrow> v')) a @
     filter (\<lambda>(k, v). map_of a k = None) b"

section \<open>The document store\<close>

text \<open>
  \<^verbatim>\<open>ref.set(data, { merge: true })\<close> writes every leaf of \<open>data\<close> and keeps the rest of
  the document: a nested non-empty object is merged into the object stored under the same
  field, anything else (an empty object too) replaces what is stored. The fields of a
  document have no order: a document is read with \<open>map_of\<close>, and the place where a new
  field is put in the list means nothing.
\<close>

function merge_fields :: "obj \<Rightarrow> obj \<Rightarrow> obj" where
  "merge_fields old [] = old"
| "merge_fields old ((k, v) # rest) =
     AList.update k
       (case v of
          JObj n \<Rightarrow>
            (if n = [] then v
             else (case map_of old k of
                     Some (JObj m) \<Rightarrow> JObj (merge_fields m n)
                   | _ \<Rightarrow> v))
        | _ \<Rightarrow> v)
       (merge_fields old rest)"
  by pat_completeness auto
termination
  by (relation "measure (\<lambda>(old, new). size_list (size_prod (\<lambda>_. 0) size) new)") auto

definition set_merge :: "obj option \<Rightarrow> obj \<Rightarrow> obj" where
  "set_merge old new = merge_fields (case old of None \<Rightarrow> [] | Some d \<Rightarrow> d) new"

section \<open>The process, its collaborators and its effects\<close>

text \<open>
  \<^verbatim>\<open>DateTime.fromISO(text, { zone })\<close> and \<^verbatim>\<open>.plus({ minutes })\<close> belong to the date
  library. What the handlers ask of it is kept as a term: the event payload records which
  date was built from which task fields, and what was read off it
  (\<^verbatim>\<open>toISO()\<close>, \<^verbatim>\<open>zoneName\<close>).
\<close>

datatype luxon = FromISO jsval jsval | PlusMinutes luxon int

datatype luxon_text = ToISO luxon | ZoneName luxon

record event_time =
  dateTime :: luxon_text
  timeZone :: luxon_text

record cal_event =
  summary :: jsval
  description :: jsval
  ev_start :: event_time
  ev_end :: event_time

text \<open>The three calls made on the calendar provider, all on the calendar \<^verbatim>\<open>primary\<close>.\<close>

datatype cal_call =
    Insert cal_event
  | Update jsval cal_event
  | Delete jsval

text \<open>
  What the provider's client library does with one call: it rejects or resolves (with the
  id of the event in \<^verbatim>\<open>resp.data.id\<close>), and may first have refreshed the access token,
  which it announces on the \<^verbatim>\<open>tokens\<close> event.
\<close>

datatype cal_answer = Failed string | Answered string

record cal_result =
  refreshed :: "obj option"
  answer :: cal_answer

text \<open>The effects a request leaves behind, in the order they happen.\<close>

datatype effect =
    Cal cal_call
  | TaskAdd string string
  | TaskSet string string
  | TaskUpdate string string
  | TaskDelete string string

datatype error = CalendarProviderError string | NotFound | InvalidDocumentPath

datatype body = Json jsval | Text string | Script jsval

text \<open>
  A handler either sends a response, or its promise rejects with the error and the
  handler itself sends nothing.
\<close>

datatype outcome = Resp nat body | Rejected error

text \<open>
  The state the handlers share: the task documents \<^verbatim>\<open>users/{uid}/tasks/{id}\<close>, the
  credential documents \<^verbatim>\<open>userSecrets/{uid}/integrations/google\<close>, the one
  \<^verbatim>\<open>oauth2Client\<close> of the process (its credentials, and the \<^verbatim>\<open>tokens\<close> listeners
  registered on it, each with the \<^verbatim>\<open>uid\<close> and \<^verbatim>\<open>data.tokens\<close> it closed over), and the
  effects so far. The document store is taken to be reachable.

  \<open>doc_id\<close> is how the store reads a document id that comes with a request (the
  \<^verbatim>\<open>:id\<close> of a route, the \<^verbatim>\<open>uid\<close> of the OAuth state): \<open>None\<close> when the store refuses the
  id, as it does for \<^verbatim>\<open>a/b\<close>, which names no document of the collection, and otherwise
  the document the id names (two ids may name one document). No handler changes it, and
  the theorems hold for every such reading. The documents are kept under the names
  \<open>doc_id\<close> gives. The \<^verbatim>\<open>uid\<close> of the caller comes from the verified ID token and is taken
  to name its own documents.
\<close>

record world =
  tasks :: "string \<times> string \<rightharpoonup> obj"
  secrets :: "string \<rightharpoonup> obj"
  credentials :: jsval
  listeners :: "(string \<times> jsval) list"
  trace :: "effect list"
  doc_id :: "string \<Rightarrow> string option"

text \<open>
  What one request is given from outside: the provider's behaviour, the two readings of
  \<^verbatim>\<open>new Date()\<close>, and the id the store generates for an added document.
\<close>

record env =
  provider :: "cal_call \<Rightarrow> cal_result"
  now_1 :: nat
  now_2 :: nat
  auto_id :: string

definition cal_calls :: "world \<Rightarrow> cal_call list" where
  "cal_calls w = concat (map (\<lambda>e. case e of Cal c \<Rightarrow> [c] | _ \<Rightarrow> []) (trace w))"

section \<open>Credentials and the calendar client\<close>

text \<open>
  The listener of lines 103 to 107, for the \<^verbatim>\<open>uid\<close> and \<^verbatim>\<open>data.tokens\<close> it closed over.
\<close>

definition on_tokens :: "obj \<Rightarrow> string \<times> jsval \<Rightarrow> world \<Rightarrow> world" where
  "on_tokens tokens l w =
     (case l of (uid, data_tokens) \<Rightarrow>
        if js_truthy (get_prop tokens ''refresh_token'') \<or> js_truthy (get_prop tokens ''access_token'')
        then w\<lparr>secrets := (secrets w)(uid \<mapsto>
               set_merge (secrets w uid)
                 [(''tokens'', JObj (assign (own_props data_tokens) tokens))])\<rparr>
        else w)"

text \<open>The \<^verbatim>\<open>tokens\<close> event: every registered listener runs, in the order of registration.\<close>

definition emit_tokens :: "obj \<Rightarrow> world \<Rightarrow> world" where
  "emit_tokens tokens w = fold (on_tokens tokens) (listeners w) w"

text \<open>
  Lines 97 to 110. The client returned is a handle on the one \<^verbatim>\<open>oauth2Client\<close>; null is
  \<open>None\<close>. Every call that returns a client sets the credentials of \<^verbatim>\<open>oauth2Client\<close> and
  adds one more listener to it.
\<close>

datatype calendar = Calendar

definition calendarClientFor :: "string \<Rightarrow> world \<Rightarrow> calendar option \<times> world" where
  "calendarClientFor uid w =
     (let data = secrets w uid;
          data_tokens = (case data of None \<Rightarrow> JUndefined | Some d \<Rightarrow> get_prop d ''tokens'')
      in if \<not> js_truthy (js_member data_tokens ''refresh_token'') \<and>
            \<not> js_truthy (js_member data_tokens ''access_token'')
         then (None, w)
         else (Some Calendar,
               w\<lparr>credentials := data_tokens,
                 listeners := listeners w @ [(uid, data_tokens)]\<rparr>))"

text \<open>
  What \<^verbatim>\<open>data?.tokens\<close> reads for a user, and the test of line 100: the user is connected
  when the stored tokens hold a refresh token or an access token.
\<close>

definition stored_tokens :: "world \<Rightarrow> string \<Rightarrow> jsval" where
  "stored_tokens w uid = (case secrets w uid of None \<Rightarrow> JUndefined | Some d \<Rightarrow> get_prop d ''tokens'')"

definition connected :: "world \<Rightarrow> string \<Rightarrow> bool" where
  "connected w uid =
     (js_truthy (js_member (stored_tokens w uid) ''refresh_token'') \<or>
      js_truthy (js_member (stored_tokens w uid) ''access_token''))"

text \<open>One call on the provider: logged, a refresh announced, the answer returned.\<close>

definition call_provider :: "env \<Rightarrow> cal_call \<Rightarrow> world \<Rightarrow> (error + string) \<times> world" where
  "call_provider e c w =
     (let r = provider e c;
          w1 = w\<lparr>trace := trace w @ [Cal c]\<rparr>;
          w2 = (case refreshed r of None \<Rightarrow> w1 | Some t \<Rightarrow> emit_tokens t w1)
      in (case answer r of
            Failed msg \<Rightarrow> Inl (CalendarProviderError msg)
          | Answered i \<Rightarrow> Inr i,
          w2))"

section \<open>Creating or updating the calendar event\<close>

text \<open>The payload of lines 224 to 232, for the task handed to \<^verbatim>\<open>upsertCalendarEvent\<close>.\<close>

definition build_event :: "obj \<Rightarrow> cal_event" where
  "build_event task =
     (let start = FromISO (get_prop task ''dueDateTime'')
                    (js_or (get_prop task ''timezone'') (JStr ''Africa/Lagos''));
          end' = PlusMinutes start 30
      in \<lparr>summary = get_prop task ''title'',
          description = js_or (get_prop task ''description'') (JStr []),
          ev_start = \<lparr>dateTime = ToISO start, timeZone = ZoneName start\<rparr>,
          ev_end = \<lparr>dateTime = ToISO end', timeZone = ZoneName end'\<rparr>\<rparr>)"

text \<open>The call lines 234 to 244 choose: an update of the event the task carries, or an insert.\<close>

definition upsert_call :: "obj \<Rightarrow> cal_call" where
  "upsert_call task =
     (if js_truthy (get_prop task ''calendarEventId'')
      then Update (get_prop task ''calendarEventId'') (build_event task)
      else Insert (build_event task))"

definition upsertCalendarEvent :: "env \<Rightarrow> string \<Rightarrow> obj \<Rightarrow> world \<Rightarrow> (error + jsval) \<times> world" where
  "upsertCalendarEvent e uid task w =
     (case calendarClientFor uid w of
        (None, w1) \<Rightarrow> (Inr JNull, w1)
      | (Some cal, w1) \<Rightarrow>
          (case call_provider e (upsert_call task) w1 of
             (Inl err, w2) \<Rightarrow> (Inl err, w2)
           | (Inr i, w2) \<Rightarrow> (Inr (JStr i), w2)))"

section \<open>The task handlers\<close>

text \<open>
  The task document a request id names for a user: none when the store refuses the id.
\<close>

definition task_at :: "world \<Rightarrow> string \<Rightarrow> string \<Rightarrow> obj option" where
  "task_at w uid tid = (case doc_id w tid of None \<Rightarrow> None | Some k \<Rightarrow> tasks w (uid, k))"

text \<open>
  \<^verbatim>\<open>ref.update(fields)\<close> on the document \<open>k\<close>, reached by the request id \<open>tid\<close>: the
  document has to exist; the fields given are replaced.
\<close>

definition doc_update :: "string \<Rightarrow> string \<Rightarrow> string \<Rightarrow> obj \<Rightarrow> world \<Rightarrow> error + world" where
  "doc_update uid tid k fs w =
     (case tasks w (uid, k) of
        None \<Rightarrow> Inl NotFound
      | Some d \<Rightarrow>
          Inr (w\<lparr>tasks := (tasks w)((uid, k) \<mapsto> assign d fs),
                 trace := trace w @ [TaskUpdate uid tid]\<rparr>))"

text \<open>\<^verbatim>\<open>{ id, ...snap.data() }\<close> for the document read back (nothing when there is none).\<close>

definition with_id :: "string \<Rightarrow> obj option \<Rightarrow> obj" where
  "with_id tid d = assign [(''id'', JStr tid)] (case d of None \<Rightarrow> [] | Some x \<Rightarrow> x)"

definition task_json :: "string \<Rightarrow> string \<Rightarrow> world \<Rightarrow> obj" where
  "task_json uid tid w = with_id tid (task_at w uid tid)"

text \<open>The document \<^verbatim>\<open>POST /tasks\<close> adds (lines 140 to 153).\<close>

definition new_task :: "env \<Rightarrow> obj \<Rightarrow> obj" where
  "new_task e body =
     [(''title'', get_prop body ''title''),
      (''description'', js_or (get_prop body ''description'') (JStr [])),
      (''dueDateTime'', js_or (get_prop body ''dueDateTime'') JNull),
      (''priority'', js_default (get_prop body ''priority'') (JStr ''medium'')),
      (''category'', js_default (get_prop body ''category'') (JStr ''other'')),
      (''tags'', js_default (get_prop body ''tags'') (JArr [])),
      (''reminder'', js_default (get_prop body ''reminder'') (JStr ''none'')),
      (''calendarSync'', js_default (get_prop body ''calendarSync'') (JBool False)),
      (''timezone'', js_default (get_prop body ''timezone'') (JStr ''Africa/Lagos'')),
      (''completed'', JBool False),
      (''createdAt'', JDate (now_1 e)),
      (''updatedAt'', JDate (now_1 e))]"

text \<open>The task handed to \<^verbatim>\<open>upsertCalendarEvent\<close> by \<^verbatim>\<open>POST /tasks\<close> (lines 158 to 162).\<close>

definition post_sync_task :: "env \<Rightarrow> obj \<Rightarrow> obj" where
  "post_sync_task e body =
     [(''id'', JStr (auto_id e)),
      (''title'', get_prop body ''title''),
      (''description'', get_prop body ''description''),
      (''dueDateTime'', get_prop body ''dueDateTime''),
      (''timezone'', js_default (get_prop body ''timezone'') (JStr ''Africa/Lagos''))]"

text \<open>
  Lines 120 to 169. The document is added under the id the store generates, which names
  itself.
\<close>

definition post_tasks :: "env \<Rightarrow> string \<Rightarrow> obj \<Rightarrow> world \<Rightarrow> outcome \<times> world" where
  "post_tasks e uid body w =
     (if \<not> js_truthy (get_prop body ''title'')
      then (Resp 400 (Json (JObj [(''error'', JStr ''title is required'')])), w)
      else
        (let tid = auto_id e;
             w1 = w\<lparr>tasks := (tasks w)((uid, tid) \<mapsto> new_task e body),
                    trace := trace w @ [TaskAdd uid tid]\<rparr>
         in if js_truthy (js_default (get_prop body ''calendarSync'') (JBool False)) \<and>
               js_truthy (get_prop body ''dueDateTime'')
            then
              (case upsertCalendarEvent e uid (post_sync_task e body) w1 of
                 (Inl err, w2) \<Rightarrow> (Rejected err, w2)
               | (Inr calendarEventId, w2) \<Rightarrow>
                   (case doc_update uid tid tid
                           [(''calendarEventId'', calendarEventId),
                            (''updatedAt'', JDate (now_2 e))] w2 of
                      Inl err \<Rightarrow> (Rejected err, w2)
                    | Inr w3 \<Rightarrow>
                        (Resp 201 (Json (JObj (with_id tid (tasks w3 (uid, tid))))), w3)))
            else (Resp 201 (Json (JObj (with_id tid (tasks w1 (uid, tid))))), w1)))"

text \<open>\<^verbatim>\<open>{ ...req.body, updatedAt: new Date() }\<close>\<close>

definition patch_payload :: "env \<Rightarrow> obj \<Rightarrow> obj" where
  "patch_payload e body = assign body [(''updatedAt'', JDate (now_1 e))]"

text \<open>
  Lines 171 to 193. The reference of lines 174 to 178 is built from the id of the request:
  when the store refuses the id, the handler rejects before anything is read or written.
  Otherwise \<open>k\<close> is the document the id names; the response carries the id as it came.
\<close>

definition patch_task :: "env \<Rightarrow> string \<Rightarrow> string \<Rightarrow> obj \<Rightarrow> world \<Rightarrow> outcome \<times> world" where
  "patch_task e uid tid body w =
     (case doc_id w tid of
        None \<Rightarrow> (Rejected InvalidDocumentPath, w)
      | Some k \<Rightarrow>
          (let payload = patch_payload e body;
               w1 = w\<lparr>tasks := (tasks w)((uid, k) \<mapsto> set_merge (tasks w (uid, k)) payload),
                      trace := trace w @ [TaskSet uid tid]\<rparr>
           in if (js_truthy (get_prop payload ''calendarSync'') \<or>
                  js_truthy (get_prop payload ''dueDateTime'')) \<and>
                 get_prop payload ''calendarSync'' \<noteq> JBool False
              then
                (let task = with_id tid (tasks w1 (uid, k))
                 in if js_truthy (get_prop task ''dueDateTime'')
                    then
                      (case upsertCalendarEvent e uid task w1 of
                         (Inl err, w2) \<Rightarrow> (Rejected err, w2)
                       | (Inr eventId, w2) \<Rightarrow>
                           (case doc_update uid tid k
                                   [(''calendarEventId'', eventId),
                                    (''updatedAt'', JDate (now_2 e))] w2 of
                              Inl err \<Rightarrow> (Rejected err, w2)
                            | Inr w3 \<Rightarrow>
                                (Resp 200 (Json (JObj (with_id tid (tasks w3 (uid, k))))), w3)))
                    else (Resp 200 (Json (JObj (with_id tid (tasks w1 (uid, k))))), w1))
              else (Resp 200 (Json (JObj (with_id tid (tasks w1 (uid, k))))), w1)))"

text \<open>
  Lines 195 to 217, with the reference of lines 197 to 201 built as in \<^verbatim>\<open>PATCH\<close>.
\<close>

definition delete_task :: "env \<Rightarrow> string \<Rightarrow> string \<Rightarrow> world \<Rightarrow> outcome \<times> world" where
  "delete_task e uid tid w =
     (case doc_id w tid of
        None \<Rightarrow> (Rejected InvalidDocumentPath, w)
      | Some k \<Rightarrow>
          (let task = tasks w (uid, k);
               calendarEventId = (case task of None \<Rightarrow> JUndefined
                                  | Some d \<Rightarrow> get_prop d ''calendarEventId'');
               w1 = (if js_truthy calendarEventId
                     then (case calendarClientFor uid w of
                             (None, w') \<Rightarrow> w'
                           | (Some cal, w') \<Rightarrow>
                               snd (call_provider e (Delete calendarEventId) w'))
                     else w);
               w2 = w1\<lparr>tasks := (tasks w1)((uid, k) := None),
                       trace := trace w1 @ [TaskDelete uid tid]\<rparr>
           in (Resp 200 (Json (JObj [(''ok'', JBool True)])), w2)))"

text \<open>
  The task \<^verbatim>\<open>PATCH /tasks/:id\<close> reads back at line 184, after the merge write of line 180,
  and the test of lines 182 and 185 on it: the request synchronises when the payload has a
  truthy \<^verbatim>\<open>calendarSync\<close> or \<^verbatim>\<open>dueDateTime\<close>, its \<^verbatim>\<open>calendarSync\<close> is not \<^verbatim>\<open>false\<close>, and
  the merged task has a \<^verbatim>\<open>dueDateTime\<close>.
\<close>

definition patched_task :: "env \<Rightarrow> string \<Rightarrow> string \<Rightarrow> obj \<Rightarrow> world \<Rightarrow> obj" where
  "patched_task e uid tid body w =
     with_id tid (Some (set_merge (task_at w uid tid) (patch_payload e body)))"

definition patch_syncs :: "env \<Rightarrow> string \<Rightarrow> string \<Rightarrow> obj \<Rightarrow> world \<Rightarrow> bool" where
  "patch_syncs e uid tid body w =
     ((js_truthy (get_prop body ''calendarSync'') \<or> js_truthy (get_prop body ''dueDateTime'')) \<and>
      get_prop body ''calendarSync'' \<noteq> JBool False \<and>
      js_truthy (get_prop (patched_task e uid tid body w) ''dueDateTime''))"

text \<open>
  The event payload as the specification words it, for a title, a description, a due date
  and a time zone: the summary is the title, the description is the description or the
  empty string, the start is the due date read in the time zone (in \<^verbatim>\<open>Africa/Lagos\<close> when
  there is none), and the end is 30 minutes after the start.
\<close>

definition spec_event :: "jsval \<Rightarrow> jsval \<Rightarrow> jsval \<Rightarrow> jsval \<Rightarrow> cal_event" where
  "spec_event title descr due tz =
     \<lparr>summary = title,
      description = (if js_truthy descr then descr else JStr []),
      ev_start =
        \<lparr>dateTime = ToISO (FromISO due (if js_truthy tz then tz else JStr ''Africa/Lagos'')),
         timeZone = ZoneName (FromISO due (if js_truthy tz then tz else JStr ''Africa/Lagos''))\<rparr>,
      ev_end =
        \<lparr>dateTime =
           ToISO (PlusMinutes (FromISO due (if js_truthy tz then tz else JStr ''Africa/Lagos'')) 30),
         timeZone =
           ZoneName (PlusMinutes (FromISO due (if js_truthy tz then tz else JStr ''Africa/Lagos'')) 30)\<rparr>\<rparr>"

section \<open>The OAuth callback\<close>






text \<open>The state of the process once the exchange of line 81 has resolved.\<close>

definition announced :: "obj option \<Rightarrow> world \<Rightarrow> world" where
  "announced ann w = (case ann of None \<Rightarrow> w | Some t \<Rightarrow> emit_tokens t w)"



section \<open>Document ids\<close>

text \<open>
  How the document store reads an id, as far as its client library and its documented
  limits say, used for the example requests below. The client library refuses an id that
  is empty or contains \<^verbatim>\<open>//\<close>, drops empty segments at both ends, and refuses a path that
  does not name a document of the collection (an even number of segments, as in
  \<^verbatim>\<open>a/b\<close>). The store refuses the segments \<^verbatim>\<open>.\<close> and \<^verbatim>\<open>..\<close>, segments of the form
  \<^verbatim>\<open>__.*__\<close>, and segments longer than 1500 bytes.
\<close>

fun split_slash :: "string \<Rightarrow> string list" where
  "split_slash [] = [[]]"
| "split_slash (c # cs) =
     (if c = CHR ''/'' then [] # split_slash cs
      else (case split_slash cs of [] \<Rightarrow> [[c]] | x # xs \<Rightarrow> (c # x) # xs))"

definition segments :: "string \<Rightarrow> string list" where
  "segments s = filter (\<lambda>x. x \<noteq> []) (split_slash s)"

fun double_slash :: "string \<Rightarrow> bool" where
  "double_slash (a # b # cs) = ((a = CHR ''/'' \<and> b = CHR ''/'') \<or> double_slash (b # cs))"
| "double_slash cs = False"

definition reserved_segment :: "string \<Rightarrow> bool" where
  "reserved_segment x =
     (x = ''.'' \<or> x = ''..'' \<or>
      (4 \<le> length x \<and> take 2 x = ''__'' \<and> drop (length x - 2) x = ''__'') \<or>
      1500 < length x)"

fun join_slash :: "string list \<Rightarrow> string" where
  "join_slash [] = []"
| "join_slash [x] = x"
| "join_slash (x # y # ys) = x @ CHR ''/'' # join_slash (y # ys)"

definition firestore_doc_id :: "string \<Rightarrow> string option" where
  "firestore_doc_id s =
     (if s = [] \<or> double_slash s \<or> even (length (segments s)) \<or>
         list_ex reserved_segment (segments s)
      then None
      else Some (join_slash (segments s)))"

section \<open>Example requests\<close>

text \<open>
  A provider that answers every call with the event id \<^verbatim>\<open>evt1\<close>, one that fails every
  call, a store with no documents, and the same store with credentials for \<^verbatim>\<open>alice\<close>.
\<close>

definition env_ok :: env where
  "env_ok = \<lparr>provider = (\<lambda>c. \<lparr>refreshed = None, answer = Answered ''evt1''\<rparr>),
            now_1 = 1000, now_2 = 1001, auto_id = ''t1''\<rparr>"

definition env_down :: env where
  "env_down = \<lparr>provider = (\<lambda>c. \<lparr>refreshed = None, answer = Failed ''unavailable''\<rparr>),
              now_1 = 2000, now_2 = 2001, auto_id = ''t2''\<rparr>"

definition w_empty :: world where
  "w_empty = \<lparr>tasks = Map.empty, secrets = Map.empty, credentials = JUndefined,
             listeners = [], trace = [], doc_id = firestore_doc_id\<rparr>"

definition alice_tokens :: obj where
  "alice_tokens = [(''access_token'', JStr ''A''), (''refresh_token'', JStr ''R'')]"

definition w_alice :: world where
  "w_alice = w_empty\<lparr>secrets := [''alice'' \<mapsto> [(''tokens'', JObj alice_tokens)]]\<rparr>"

definition sync_body :: obj where
  "sync_body = [(''title'', JStr ''Pay rent''),
                (''dueDateTime'', JStr ''2025-03-01T09:00''),
                (''calendarSync'', JBool True)]"

text \<open>
  A payload that switches synchronisation off, and the store after \<^verbatim>\<open>alice\<close> has created a
  synchronised task and then sent that payload for it.
\<close>

definition unsync_body :: obj where
  "unsync_body = [(''calendarSync'', JBool False), (''dueDateTime'', JNull)]"

definition w_unsynced :: world where
  "w_unsynced =
     snd (patch_task env_ok ''alice'' ''t1'' unsync_body
            (snd (post_tasks env_ok ''alice'' sync_body w_alice)))"

text \<open>A payload that switches synchronisation on again, with a new due date.\<close>

definition resync_body :: obj where
  "resync_body = [(''calendarSync'', JBool True), (''dueDateTime'', JStr ''2025-04-01T10:00'')]"






section \<open>Reading objects and documents\<close>

lemma map_of_assign_at:
  "map_of (assign a b) k = (case map_of b k of None \<Rightarrow> map_of a k | Some v \<Rightarrow> Some v)"
proof -
  have kept: "map_of (map (\<lambda>(k, v). (k, case map_of b k of None \<Rightarrow> v | Some v' \<Rightarrow> v')) a) k =
           (case map_of a k of None \<Rightarrow> None
            | Some v \<Rightarrow> Some (case map_of b k of None \<Rightarrow> v | Some v' \<Rightarrow> v'))"
    by (induction a) (auto split: option.splits)
  have added: "map_of (filter (\<lambda>(k, v). map_of a k = None) b) k =
           (if map_of a k = None then map_of b k else None)"
    by (induction b) auto
  show ?thesis
    by (simp add: assign_def map_add_def kept added split: option.splits)
qed

lemma get_prop_assign:
  "get_prop (assign a b) k = (case map_of b k of None \<Rightarrow> get_prop a k | Some v \<Rightarrow> v)"
  by (simp add: get_prop_def map_of_assign_at split: option.splits)


lemma map_of_merge_fields_leaf:
  "map_of new k = Some v \<Longrightarrow> (\<And>n. v = JObj n \<Longrightarrow> n = []) \<Longrightarrow>
   map_of (merge_fields old new) k = Some v"
  by (induction new) (auto simp: update_conv' split: if_splits jsval.splits option.splits)



section \<open>What a request leaves unchanged\<close>

lemma fold_on_tokens_frame:
  "tasks (fold (on_tokens t) ls w) = tasks w \<and>
   trace (fold (on_tokens t) ls w) = trace w \<and>
   listeners (fold (on_tokens t) ls w) = listeners w \<and>
   credentials (fold (on_tokens t) ls w) = credentials w \<and>
   doc_id (fold (on_tokens t) ls w) = doc_id w"
  by (induction ls arbitrary: w) (auto simp: on_tokens_def)

lemma emit_tokens_frame [simp]:
  "tasks (emit_tokens t w) = tasks w"
  "trace (emit_tokens t w) = trace w"
  "listeners (emit_tokens t w) = listeners w"
  "credentials (emit_tokens t w) = credentials w"
  "doc_id (emit_tokens t w) = doc_id w"
  by (simp_all add: emit_tokens_def fold_on_tokens_frame)

lemma calendarClientFor_cases:
  "calendarClientFor uid w =
     (if connected w uid
      then (Some Calendar,
            w\<lparr>credentials := stored_tokens w uid,
              listeners := listeners w @ [(uid, stored_tokens w uid)]\<rparr>)
      else (None, w))"
  by (simp add: calendarClientFor_def connected_def stored_tokens_def Let_def)

lemma call_provider_fst:
  "fst (call_provider e c w) =
     (case answer (provider e c) of
        Failed msg \<Rightarrow> Inl (CalendarProviderError msg)
      | Answered i \<Rightarrow> Inr i)"
  by (simp add: call_provider_def Let_def)

lemma call_provider_frame [simp]:
  "tasks (snd (call_provider e c w)) = tasks w"
  "trace (snd (call_provider e c w)) = trace w @ [Cal c]"
  "doc_id (snd (call_provider e c w)) = doc_id w"
  by (simp_all add: call_provider_def Let_def split: option.splits)


lemma upsert_fst:
  "fst (upsertCalendarEvent e uid task w) =
     (if connected w uid
      then (case answer (provider e (upsert_call task)) of
              Failed msg \<Rightarrow> Inl (CalendarProviderError msg)
            | Answered i \<Rightarrow> Inr (JStr i))
      else Inr JNull)"
  by (simp add: upsertCalendarEvent_def calendarClientFor_cases call_provider_def Let_def
      split: prod.splits sum.splits cal_answer.splits)

lemma upsert_frame [simp]:
  "tasks (snd (upsertCalendarEvent e uid task w)) = tasks w"
  "trace (snd (upsertCalendarEvent e uid task w)) =
     trace w @ (if connected w uid then [Cal (upsert_call task)] else [])"
  "doc_id (snd (upsertCalendarEvent e uid task w)) = doc_id w"
  by (simp_all add: upsertCalendarEvent_def calendarClientFor_cases call_provider_def Let_def
      split: prod.splits sum.splits cal_answer.splits option.splits)

lemma connected_frame [simp]:
  "connected (w\<lparr>tasks := ts\<rparr>) uid = connected w uid"
  "connected (w\<lparr>trace := tr\<rparr>) uid = connected w uid"
  by (simp_all add: connected_def stored_tokens_def)

section \<open>The event payload\<close>

lemma upsert_call_no_event_id:
  "map_of task ''calendarEventId'' = None \<Longrightarrow> upsert_call task = Insert (build_event task)"
  by (simp add: upsert_call_def get_prop_def)

lemma build_event_spec:
  "build_event task =
     spec_event (get_prop task ''title'') (get_prop task ''description'')
       (get_prop task ''dueDateTime'') (get_prop task ''timezone'')"
  by (simp add: build_event_def spec_event_def Let_def js_or_def)

lemma post_event_spec:
  "build_event (post_sync_task e body) =
     spec_event (get_prop body ''title'') (get_prop body ''description'')
       (get_prop body ''dueDateTime'') (get_prop body ''timezone'')"
  by (simp add: build_event_def spec_event_def Let_def js_or_def post_sync_task_def get_prop_def
      js_default_def)

lemma post_call:
  "upsert_call (post_sync_task e body) = Insert (build_event (post_sync_task e body))"
  by (rule upsert_call_no_event_id) (simp add: post_sync_task_def)

section \<open>The ways out of the handlers\<close>

lemma post_tasks_no_sync:
  assumes "js_truthy (get_prop body ''title'')"
    and "\<not> (js_truthy (get_prop body ''calendarSync'') \<and> js_truthy (get_prop body ''dueDateTime''))"
  shows "post_tasks e uid body w =
     (Resp 201 (Json (JObj (assign [(''id'', JStr (auto_id e))] (new_task e body)))),
      w\<lparr>tasks := (tasks w)((uid, auto_id e) \<mapsto> new_task e body),
        trace := trace w @ [TaskAdd uid (auto_id e)]\<rparr>)"
  using assms
  by (auto simp: post_tasks_def Let_def with_id_def js_default_def)

lemma post_tasks_sync:
  assumes "js_truthy (get_prop body ''title'')"
    and "js_truthy (get_prop body ''calendarSync'')"
    and "js_truthy (get_prop body ''dueDateTime'')"
  shows "post_tasks e uid body w =
     (let w1 = w\<lparr>tasks := (tasks w)((uid, auto_id e) \<mapsto> new_task e body),
                 trace := trace w @ [TaskAdd uid (auto_id e)]\<rparr>;
          up = upsertCalendarEvent e uid (post_sync_task e body) w1
      in case fst up of
           Inl err \<Rightarrow> (Rejected err, snd up)
         | Inr eventId \<Rightarrow>
             (Resp 201 (Json (JObj (assign [(''id'', JStr (auto_id e))]
                 (assign (new_task e body)
                    [(''calendarEventId'', eventId), (''updatedAt'', JDate (now_2 e))])))),
              (snd up)\<lparr>tasks := (tasks w)((uid, auto_id e) \<mapsto>
                          assign (new_task e body)
                            [(''calendarEventId'', eventId), (''updatedAt'', JDate (now_2 e))]),
                       trace := trace (snd up) @ [TaskUpdate uid (auto_id e)]\<rparr>))"
proof -
  let ?w1 = "w\<lparr>tasks := (tasks w)((uid, auto_id e) \<mapsto> new_task e body),
                 trace := trace w @ [TaskAdd uid (auto_id e)]\<rparr>"
  let ?up = "upsertCalendarEvent e uid (post_sync_task e body) ?w1"
  obtain r w2 where up: "?up = (r, w2)"
    by (cases ?up)
  have "tasks (snd ?up) = (tasks w)((uid, auto_id e) \<mapsto> new_task e body)"
    by simp
  then have tasks_up: "tasks w2 = (tasks w)((uid, auto_id e) \<mapsto> new_task e body)"
    by (simp add: up)
  have upd: "\<And>fs. doc_update uid (auto_id e) (auto_id e) fs w2 =
      Inr (w2\<lparr>tasks := (tasks w)((uid, auto_id e) \<mapsto> assign (new_task e body) fs),
            trace := trace w2 @ [TaskUpdate uid (auto_id e)]\<rparr>)"
    by (simp add: doc_update_def tasks_up)
  have sync: "js_truthy (js_default (get_prop body ''calendarSync'') (JBool False))"
    using assms(2) by (auto simp: js_default_def)
  show ?thesis
    unfolding post_tasks_def Let_def
    using assms(1,3) sync
    by (cases r) (simp_all add: up upd with_id_def)
qed

lemma get_prop_patch_payload:
  "k \<noteq> ''updatedAt'' \<Longrightarrow> get_prop (patch_payload e body) k = get_prop body k"
  by (simp add: patch_payload_def get_prop_assign)

lemma task_at_key: "doc_id w tid = Some k \<Longrightarrow> task_at w uid tid = tasks w (uid, k)"
  by (simp add: task_at_def)


lemma patch_task_refused:
  "doc_id w tid = None \<Longrightarrow> patch_task e uid tid body w = (Rejected InvalidDocumentPath, w)"
  by (simp add: patch_task_def)

lemma delete_task_refused:
  "doc_id w tid = None \<Longrightarrow> delete_task e uid tid w = (Rejected InvalidDocumentPath, w)"
  by (simp add: delete_task_def)

lemma patch_task_no_sync:
  assumes "doc_id w tid = Some k"
    and "\<not> patch_syncs e uid tid body w"
  shows "patch_task e uid tid body w =
     (Resp 200 (Json (JObj (patched_task e uid tid body w))),
      w\<lparr>tasks := (tasks w)((uid, k) \<mapsto> set_merge (tasks w (uid, k)) (patch_payload e body)),
        trace := trace w @ [TaskSet uid tid]\<rparr>)"
  using assms
  by (auto simp: patch_task_def Let_def patch_syncs_def patched_task_def task_at_def
      get_prop_patch_payload)

lemma patch_task_sync:
  assumes "doc_id w tid = Some k"
    and "patch_syncs e uid tid body w"
  shows "patch_task e uid tid body w =
     (let doc = set_merge (tasks w (uid, k)) (patch_payload e body);
          w1 = w\<lparr>tasks := (tasks w)((uid, k) \<mapsto> doc), trace := trace w @ [TaskSet uid tid]\<rparr>;
          up = upsertCalendarEvent e uid (patched_task e uid tid body w) w1
      in case fst up of
           Inl err \<Rightarrow> (Rejected err, snd up)
         | Inr eventId \<Rightarrow>
             (Resp 200 (Json (JObj (assign [(''id'', JStr tid)]
                 (assign doc [(''calendarEventId'', eventId), (''updatedAt'', JDate (now_2 e))])))),
              (snd up)\<lparr>tasks := (tasks w)((uid, k) \<mapsto>
                          assign doc [(''calendarEventId'', eventId), (''updatedAt'', JDate (now_2 e))]),
                       trace := trace (snd up) @ [TaskUpdate uid tid]\<rparr>))"
proof -
  let ?doc = "set_merge (tasks w (uid, k)) (patch_payload e body)"
  let ?w1 = "w\<lparr>tasks := (tasks w)((uid, k) \<mapsto> ?doc), trace := trace w @ [TaskSet uid tid]\<rparr>"
  let ?up = "upsertCalendarEvent e uid (patched_task e uid tid body w) ?w1"
  have tj: "assign [(''id'', JStr tid)] ?doc = patched_task e uid tid body w"
    using assms(1) by (simp add: patched_task_def task_at_def with_id_def)
  obtain r w2 where up: "?up = (r, w2)"
    by (cases ?up)
  have "tasks (snd ?up) = (tasks w)((uid, k) \<mapsto> ?doc)"
    by simp
  then have tasks_up: "tasks w2 = (tasks w)((uid, k) \<mapsto> ?doc)"
    by (simp add: up)
  have upd: "\<And>fs. doc_update uid tid k fs w2 =
      Inr (w2\<lparr>tasks := (tasks w)((uid, k) \<mapsto> assign ?doc fs),
            trace := trace w2 @ [TaskUpdate uid tid]\<rparr>)"
    by (simp add: doc_update_def tasks_up)
  have cond: "(js_truthy (get_prop (patch_payload e body) ''calendarSync'') \<or>
               js_truthy (get_prop (patch_payload e body) ''dueDateTime'')) \<and>
              get_prop (patch_payload e body) ''calendarSync'' \<noteq> JBool False"
    using assms(2) by (simp add: patch_syncs_def get_prop_patch_payload)
  have due: "js_truthy (get_prop (patched_task e uid tid body w) ''dueDateTime'')"
    using assms(2) by (simp add: patch_syncs_def)
  show ?thesis
    unfolding patch_task_def Let_def
    using cond due assms(1)
    by (cases r) (simp_all add: tj up upd with_id_def)
qed

lemma delete_task_fst:
  "doc_id w tid = Some k \<Longrightarrow>
   fst (delete_task e uid tid w) = Resp 200 (Json (JObj [(''ok'', JBool True)]))"
  by (simp add: delete_task_def Let_def)

lemma delete_task_removed:
  "doc_id w tid = Some k \<Longrightarrow>
   tasks (snd (delete_task e uid tid w)) = (tasks w)((uid, k) := None)"
  by (simp add: delete_task_def Let_def calendarClientFor_cases)

lemma delete_task_trace:
  "doc_id w tid = Some k \<Longrightarrow>
   trace (snd (delete_task e uid tid w)) =
     trace w @
     (if js_truthy (case tasks w (uid, k) of None \<Rightarrow> JUndefined
                    | Some d \<Rightarrow> get_prop d ''calendarEventId'') \<and> connected w uid
      then [Cal (Delete (case tasks w (uid, k) of None \<Rightarrow> JUndefined
                         | Some d \<Rightarrow> get_prop d ''calendarEventId''))]
      else []) @
     [TaskDelete uid tid]"
  by (simp add: delete_task_def Let_def calendarClientFor_cases)

lemma delete_task_doc_id [simp]: "doc_id (snd (delete_task e uid tid w)) = doc_id w"
  by (simp add: delete_task_def Let_def calendarClientFor_cases split: option.splits)

lemma post_tasks_rejected:
  assumes "js_truthy (get_prop body ''title'')"
    and "js_truthy (get_prop body ''calendarSync'')"
    and "js_truthy (get_prop body ''dueDateTime'')"
    and "connected w uid"
    and "answer (provider e (Insert (build_event (post_sync_task e body)))) = Failed msg"
  shows "post_tasks e uid body w =
          (Rejected (CalendarProviderError msg),
           snd (upsertCalendarEvent e uid (post_sync_task e body)
             (w\<lparr>tasks := (tasks w)((uid, auto_id e) \<mapsto> new_task e body),
                trace := trace w @ [TaskAdd uid (auto_id e)]\<rparr>)))"
  using assms(4,5)
  by (simp add: post_tasks_sync [OF assms(1-3)] Let_def upsert_fst post_call)

lemma post_tasks_synced:
  assumes "js_truthy (get_prop body ''title'')"
    and "js_truthy (get_prop body ''calendarSync'')"
    and "js_truthy (get_prop body ''dueDateTime'')"
    and "connected w uid"
    and "fst (post_tasks e uid body w) = Resp 201 b"
  shows "\<exists>i d. answer (provider e (Insert (build_event (post_sync_task e body)))) = Answered i \<and>
           tasks (snd (post_tasks e uid body w)) (uid, auto_id e) = Some d \<and>
           get_prop d ''calendarEventId'' = JStr i \<and>
           b = Json (JObj (assign [(''id'', JStr (auto_id e))] d)) \<and>
           cal_calls (snd (post_tasks e uid body w)) =
             cal_calls w @ [Insert (build_event (post_sync_task e body))]"
proof (cases "answer (provider e (Insert (build_event (post_sync_task e body))))")
  case (Failed msg)
  with assms show ?thesis
    by (simp add: post_tasks_rejected)
next
  case (Answered i)
  with assms(4,5) show ?thesis
    by (simp add: post_tasks_sync [OF assms(1-3)] Let_def upsert_fst post_call
        get_prop_assign cal_calls_def)
qed

lemma post_tasks_doc_id [simp]: "doc_id (snd (post_tasks e uid body w)) = doc_id w"
proof (cases "js_truthy (get_prop body ''title'')")
  case False
  then show ?thesis
    by (simp add: post_tasks_def)
next
  case title: True
  show ?thesis
  proof (cases "js_truthy (get_prop body ''calendarSync'') \<and> js_truthy (get_prop body ''dueDateTime'')")
    case False
    then show ?thesis
      by (simp add: post_tasks_no_sync [OF title])
  next
    case True
    then show ?thesis
      by (simp add: post_tasks_sync [OF title] Let_def split: sum.splits)
  qed
qed

lemma announced_doc_id [simp]: "doc_id (announced ann w) = doc_id w"
  by (simp add: announced_def split: option.splits)

lemma patch_task_doc_id [simp]: "doc_id (snd (patch_task e uid tid body w)) = doc_id w"
proof (cases "doc_id w tid")
  case None
  then show ?thesis by (simp add: patch_task_refused)
next
  case (Some k)
  show ?thesis
  proof (cases "patch_syncs e uid tid body w")
    case False
    then show ?thesis by (simp add: patch_task_no_sync [OF Some])
  next
    case True
    then show ?thesis
      by (simp add: patch_task_sync [OF Some] Let_def split: sum.splits)
  qed
qed

lemma patch_task_synced:
  assumes "patch_syncs e uid tid body w"
    and "connected w uid"
    and "fst (patch_task e uid tid body w) = Resp 200 b"
  shows "\<exists>i d. answer (provider e (upsert_call (patched_task e uid tid body w))) = Answered i \<and>
           task_at (snd (patch_task e uid tid body w)) uid tid = Some d \<and>
           get_prop d ''calendarEventId'' = JStr i \<and>
           b = Json (JObj (assign [(''id'', JStr tid)] d)) \<and>
           cal_calls (snd (patch_task e uid tid body w)) =
             cal_calls w @ [upsert_call (patched_task e uid tid body w)]"
proof (cases "doc_id w tid")
  case None
  with assms(3) show ?thesis
    by (simp add: patch_task_refused)
next
  case (Some k)
  have at: "task_at (snd (patch_task e uid tid body w)) uid tid =
      tasks (snd (patch_task e uid tid body w)) (uid, k)"
    using Some by (simp add: task_at_def)
  show ?thesis
  proof (cases "answer (provider e (upsert_call (patched_task e uid tid body w)))")
    case (Failed msg)
    with assms(2,3) show ?thesis
      by (simp add: patch_task_sync [OF Some assms(1)] Let_def upsert_fst)
  next
    case (Answered i)
    with assms(2,3) show ?thesis
      unfolding at
      by (simp add: patch_task_sync [OF Some assms(1)] Let_def upsert_fst
          get_prop_assign cal_calls_def)
  qed
qed

















lemma on_tokens_other_fields:
  "k \<noteq> ''tokens'' \<Longrightarrow>
   map_of (case secrets (on_tokens t l w) uid of None \<Rightarrow> [] | Some d \<Rightarrow> d) k =
   map_of (case secrets w uid of None \<Rightarrow> [] | Some d \<Rightarrow> d) k"
  by (cases l) (simp add: on_tokens_def set_merge_def update_conv')

lemma fold_on_tokens_other_fields:
  "k \<noteq> ''tokens'' \<Longrightarrow>
   map_of (case secrets (fold (on_tokens t) ls w) uid of None \<Rightarrow> [] | Some d \<Rightarrow> d) k =
   map_of (case secrets w uid of None \<Rightarrow> [] | Some d \<Rightarrow> d) k"
  by (induction ls arbitrary: w) (simp_all add: on_tokens_other_fields)

lemma on_tokens_written:
  assumes "js_truthy (get_prop t ''refresh_token'') \<or> js_truthy (get_prop t ''access_token'')"
  shows "secrets (on_tokens t (uid, dt) w) uid =
         Some (set_merge (secrets w uid) [(''tokens'', JObj (assign (own_props dt) t))])"
  using assms by (simp add: on_tokens_def)

lemma merged_token_leaf:
  assumes "map_of n k = Some v" and "\<And>m. v \<noteq> JObj m"
  shows "js_member (get_prop (set_merge old [(''tokens'', JObj n)]) ''tokens'') k = v"
proof -
  have ne: "n \<noteq> []"
    using assms(1) by auto
  have leaf: "map_of (merge_fields m n) k = Some v" for m
    by (rule map_of_merge_fields_leaf) (use assms in auto)
  have "get_prop (set_merge old [(''tokens'', JObj n)]) ''tokens'' =
        (case map_of (case old of None \<Rightarrow> [] | Some d \<Rightarrow> d) ''tokens'' of
           Some (JObj m) \<Rightarrow> JObj (merge_fields m n)
         | _ \<Rightarrow> JObj n)"
    using ne by (simp add: set_merge_def get_prop_def update_conv' split: option.splits jsval.splits)
  moreover have "js_member (JObj n) k = v" and "js_member (JObj (merge_fields m n)) k = v" for m
    using assms(1) leaf by (simp_all add: js_member_def get_prop_def)
  ultimately show ?thesis
    by (simp split: option.splits jsval.splits)
qed

section \<open>Facts about the example requests\<close>

lemma doc_id_t1: "firestore_doc_id ''t1'' = Some ''t1''"
  by (simp add: firestore_doc_id_def segments_def reserved_segment_def)


lemma doc_id_alice: "firestore_doc_id ''alice'' = Some ''alice''"
  by (simp add: firestore_doc_id_def segments_def reserved_segment_def)

lemmas example_defs = env_ok_def env_down_def w_empty_def w_alice_def alice_tokens_def sync_body_def
  unsync_body_def

lemmas eval_defs = get_prop_def js_member_def js_default_def js_or_def own_props_def assign_def
  set_merge_def connected_def stored_tokens_def cal_calls_def

lemmas handler_defs = post_tasks_def patch_task_def delete_task_def Let_def upsertCalendarEvent_def
  calendarClientFor_def call_provider_def doc_update_def task_json_def task_at_def with_id_def
  doc_id_t1 new_task_def
  post_sync_task_def upsert_call_def build_event_def patch_payload_def update_conv'

lemma w_unsynced_task:
  "tasks w_unsynced (''alice'', ''t1'') =
     Some [(''title'', JStr ''Pay rent''), (''description'', JStr []),
           (''dueDateTime'', JNull), (''priority'', JStr ''medium''),
           (''category'', JStr ''other''), (''tags'', JArr []),
           (''reminder'', JStr ''none''), (''calendarSync'', JBool False),
           (''timezone'', JStr ''Africa/Lagos''), (''completed'', JBool False),
           (''createdAt'', JDate 1000), (''updatedAt'', JDate 1000),
           (''calendarEventId'', JStr ''evt1'')]"
  by (simp add: w_unsynced_def handler_defs example_defs eval_defs)

lemma w_unsynced_doc_id: "doc_id w_unsynced = firestore_doc_id"
  by (simp add: w_unsynced_def w_alice_def w_empty_def)


lemma w_unsynced_task_at:
  "task_at w_unsynced ''alice'' ''t1'' =
     Some [(''title'', JStr ''Pay rent''), (''description'', JStr []),
           (''dueDateTime'', JNull), (''priority'', JStr ''medium''),
           (''category'', JStr ''other''), (''tags'', JArr []),
           (''reminder'', JStr ''none''), (''calendarSync'', JBool False),
           (''timezone'', JStr ''Africa/Lagos''), (''completed'', JBool False),
           (''createdAt'', JDate 1000), (''updatedAt'', JDate 1000),
           (''calendarEventId'', JStr ''evt1'')]"
  by (simp add: task_at_def w_unsynced_doc_id doc_id_t1 w_unsynced_task)

lemma w_unsynced_connected: "connected w_unsynced ''alice''"
  by (simp add: w_unsynced_def handler_defs example_defs eval_defs)

lemma post_alice_response:
  "fst (post_tasks env_ok ''alice'' sync_body w_alice) =
     Resp 201 (Json (JObj
      [(''id'', JStr ''t1''), (''title'', JStr ''Pay rent''),
       (''description'', JStr []),
       (''dueDateTime'', JStr ''2025-03-01T09:00''),
       (''priority'', JStr ''medium''), (''category'', JStr ''other''),
       (''tags'', JArr []), (''reminder'', JStr ''none''),
       (''calendarSync'', JBool True),
       (''timezone'', JStr ''Africa/Lagos''), (''completed'', JBool False),
       (''createdAt'', JDate 1000), (''updatedAt'', JDate 1001),
       (''calendarEventId'', JStr ''evt1'')]))"
  by (simp add: handler_defs example_defs eval_defs)

lemma patch_alice_response:
  "fst (patch_task env_ok ''alice'' ''t1'' resync_body w_unsynced) =
     Resp 200 (Json (JObj
      [(''id'', JStr ''t1''), (''title'', JStr ''Pay rent''),
       (''description'', JStr []),
       (''dueDateTime'', JStr ''2025-04-01T10:00''),
       (''priority'', JStr ''medium''), (''category'', JStr ''other''),
       (''tags'', JArr []), (''reminder'', JStr ''none''),
       (''calendarSync'', JBool True),
       (''timezone'', JStr ''Africa/Lagos''), (''completed'', JBool False),
       (''createdAt'', JDate 1000), (''updatedAt'', JDate 1001),
       (''calendarEventId'', JStr ''evt1'')]))"
  by (simp add: w_unsynced_def resync_body_def handler_defs example_defs eval_defs)

lemma patch_alice_syncs: "patch_syncs env_ok ''alice'' ''t1'' resync_body w_unsynced"
  by (simp add: patch_syncs_def patched_task_def w_unsynced_task_at with_id_def resync_body_def
      patch_payload_def eval_defs update_conv')


section \<open>Validation of the title\<close>

text \<open>
  C8. A \<^verbatim>\<open>POST /tasks\<close> whose body has no title (or a falsy one) is answered with 400 and
  the error \<^verbatim>\<open>title is required\<close>, and leaves everything as it was: no task document is
  written and the provider is not called.
\<close>

theorem post_tasks_title_required:
  "\<not> js_truthy (get_prop body ''title'') \<Longrightarrow>
   post_tasks e uid body w =
     (Resp 400 (Json (JObj [(''error'', JStr ''title is required'')])), w)"
  by (simp add: post_tasks_def)

theorem post_tasks_title_required_witness:
  "\<not> js_truthy (get_prop [] ''title'') \<and>
   post_tasks env_down ''alice'' [] w_alice =
     (Resp 400 (Json (JObj [(''error'', JStr ''title is required'')])), w_alice)"
  using post_tasks_title_required [of "[]" env_down "''alice''" w_alice]
  by (simp add: get_prop_def)

section \<open>A user who is not connected\<close>

text \<open>
  C6. When the credential document of a user is absent, or holds neither a refresh token
  nor an access token, \<^verbatim>\<open>calendarClientFor\<close> returns null, and \<^verbatim>\<open>upsertCalendarEvent\<close>
  returns null for any task: neither raises, and nothing is changed or called.
\<close>

theorem not_connected_is_null:
  "secrets w uid = None \<or>
   (\<exists>d. secrets w uid = Some d \<and>
        \<not> js_truthy (js_member (get_prop d ''tokens'') ''refresh_token'') \<and>
        \<not> js_truthy (js_member (get_prop d ''tokens'') ''access_token'')) \<Longrightarrow>
   calendarClientFor uid w = (None, w) \<and>
   upsertCalendarEvent e uid task w = (Inr JNull, w)"
  by (auto simp: upsertCalendarEvent_def calendarClientFor_def Let_def js_member_def)

theorem not_connected_is_null_witness:
  "secrets w_alice ''bob'' = None \<and>
   calendarClientFor ''bob'' w_alice = (None, w_alice) \<and>
   upsertCalendarEvent env_ok ''bob'' sync_body w_alice = (Inr JNull, w_alice)"
  using not_connected_is_null [of w_alice "''bob''" env_ok sync_body]
  by (simp add: w_alice_def w_empty_def)

section \<open>Deleting a task\<close>

text \<open>
  C5. For a task whose document carries a \<^verbatim>\<open>calendarEventId\<close>, \<^verbatim>\<open>DELETE /tasks/:id\<close>
  answers \<^verbatim>\<open>{ok: true}\<close> and removes the task document whatever the provider does with the
  call: the provider's answer is not looked at, so a failure of the remote deletion is
  swallowed. The remote deletion is attempted before the document is removed: the
  calendar client is resolved, and when there is one (the user is connected) the delete
  call on the event is made, and only then the document is removed.
\<close>

theorem delete_task_unconditional:
  assumes "task_at w uid tid = Some d"
    and "js_truthy (get_prop d ''calendarEventId'')"
  shows "fst (delete_task e uid tid w) = Resp 200 (Json (JObj [(''ok'', JBool True)])) \<and>
         task_at (snd (delete_task e uid tid w)) uid tid = None \<and>
         trace (snd (delete_task e uid tid w)) =
           trace w @
           (if connected w uid then [Cal (Delete (get_prop d ''calendarEventId''))] else []) @
           [TaskDelete uid tid]"
proof -
  from assms(1) obtain k where key: "doc_id w tid = Some k" and doc: "tasks w (uid, k) = Some d"
    by (auto simp: task_at_def split: option.splits)
  have "task_at (snd (delete_task e uid tid w)) uid tid =
      tasks (snd (delete_task e uid tid w)) (uid, k)"
    using key by (simp add: task_at_def)
  then have "task_at (snd (delete_task e uid tid w)) uid tid = None"
    by (simp add: delete_task_removed [OF key])
  then show ?thesis
    using assms(2) doc
    by (simp add: delete_task_fst [OF key] delete_task_trace [OF key])
qed

theorem delete_task_unconditional_witness:
  "task_at w_unsynced ''alice'' ''t1'' = Some (the (task_at w_unsynced ''alice'' ''t1'')) \<and>
   js_truthy (get_prop (the (task_at w_unsynced ''alice'' ''t1'')) ''calendarEventId'') \<and>
   answer (provider env_down (Delete (JStr ''evt1''))) = Failed ''unavailable'' \<and>
   fst (delete_task env_down ''alice'' ''t1'' w_unsynced) =
     Resp 200 (Json (JObj [(''ok'', JBool True)])) \<and>
   task_at (snd (delete_task env_down ''alice'' ''t1'' w_unsynced)) ''alice'' ''t1'' = None \<and>
   trace (snd (delete_task env_down ''alice'' ''t1'' w_unsynced)) =
     trace w_unsynced @ [Cal (Delete (JStr ''evt1'')), TaskDelete ''alice'' ''t1'']"
  using delete_task_unconditional
    [where w = w_unsynced and uid = "''alice''" and tid = "''t1''" and e = env_down
       and d = "the (task_at w_unsynced ''alice'' ''t1'')"]
  by (simp add: w_unsynced_task_at w_unsynced_connected get_prop_def env_down_def)

section \<open>A failed synchronisation on create\<close>

text \<open>
  C7. On \<^verbatim>\<open>POST /tasks\<close> with a title, \<^verbatim>\<open>calendarSync\<close> and a \<^verbatim>\<open>dueDateTime\<close>, by a
  connected user, when the provider fails the insert: the handler rejects with the
  provider's error and sends no response, and the task document has been written before
  the call, without a \<^verbatim>\<open>calendarEventId\<close>, and stays.
\<close>

theorem post_tasks_sync_error_propagates:
  assumes "js_truthy (get_prop body ''title'')"
    and "js_truthy (get_prop body ''calendarSync'')"
    and "js_truthy (get_prop body ''dueDateTime'')"
    and "connected w uid"
    and "answer (provider e (Insert (build_event (post_sync_task e body)))) = Failed msg"
  shows "fst (post_tasks e uid body w) = Rejected (CalendarProviderError msg) \<and>
         tasks (snd (post_tasks e uid body w)) (uid, auto_id e) = Some (new_task e body) \<and>
         map_of (new_task e body) ''calendarEventId'' = None \<and>
         trace (snd (post_tasks e uid body w)) =
           trace w @ [TaskAdd uid (auto_id e),
                      Cal (Insert (build_event (post_sync_task e body)))]"
  using assms(4)
  by (simp add: post_tasks_rejected [OF assms] post_call new_task_def)

theorem post_tasks_sync_error_propagates_witness:
  "js_truthy (get_prop sync_body ''title'') \<and>
   js_truthy (get_prop sync_body ''calendarSync'') \<and>
   js_truthy (get_prop sync_body ''dueDateTime'') \<and>
   connected w_alice ''alice'' \<and>
   answer (provider env_down (Insert (build_event (post_sync_task env_down sync_body)))) =
     Failed ''unavailable'' \<and>
   fst (post_tasks env_down ''alice'' sync_body w_alice) =
     Rejected (CalendarProviderError ''unavailable'') \<and>
   tasks (snd (post_tasks env_down ''alice'' sync_body w_alice)) (''alice'', ''t2'') =
     Some (new_task env_down sync_body) \<and>
   map_of (new_task env_down sync_body) ''calendarEventId'' = None"
  using post_tasks_sync_error_propagates
    [where body = sync_body and w = w_alice and uid = "''alice''" and e = env_down
       and msg = "''unavailable''"]
  by (simp add: example_defs eval_defs)

section \<open>Requests that make no provider call\<close>

text \<open>
  C1, as the code has it. \<^verbatim>\<open>POST /tasks\<close> makes no provider call when the request's
  \<^verbatim>\<open>calendarSync\<close> or \<^verbatim>\<open>dueDateTime\<close> is falsy. \<^verbatim>\<open>PATCH /tasks/:id\<close> makes none when the
  payload sets \<^verbatim>\<open>calendarSync\<close> to \<^verbatim>\<open>false\<close>, when the payload has neither a truthy
  \<^verbatim>\<open>calendarSync\<close> nor a truthy \<^verbatim>\<open>dueDateTime\<close>, or when the merged task has no
  \<^verbatim>\<open>dueDateTime\<close>. \<^verbatim>\<open>DELETE /tasks/:id\<close> makes none when the task document is absent or
  carries no \<^verbatim>\<open>calendarEventId\<close>.
\<close>

theorem no_sync_no_provider_call:
  "(\<not> (js_truthy (get_prop body ''calendarSync'') \<and> js_truthy (get_prop body ''dueDateTime'')) \<longrightarrow>
      cal_calls (snd (post_tasks e uid body w)) = cal_calls w) \<and>
   (\<not> patch_syncs e uid tid body w \<longrightarrow>
      cal_calls (snd (patch_task e uid tid body w)) = cal_calls w) \<and>
   (\<not> js_truthy (case task_at w uid tid of None \<Rightarrow> JUndefined
                  | Some d \<Rightarrow> get_prop d ''calendarEventId'') \<longrightarrow>
      cal_calls (snd (delete_task e uid tid w)) = cal_calls w)"
proof (intro conjI impI)
  assume no_sync:
    "\<not> (js_truthy (get_prop body ''calendarSync'') \<and> js_truthy (get_prop body ''dueDateTime''))"
  then show "cal_calls (snd (post_tasks e uid body w)) = cal_calls w"
  proof (cases "js_truthy (get_prop body ''title'')")
    case True
    with no_sync show ?thesis
      by (simp add: post_tasks_no_sync cal_calls_def)
  next
    case False
    then show ?thesis
      by (simp add: post_tasks_def)
  qed
next
  assume no_sync: "\<not> patch_syncs e uid tid body w"
  show "cal_calls (snd (patch_task e uid tid body w)) = cal_calls w"
  proof (cases "doc_id w tid")
    case None
    then show ?thesis
      by (simp add: patch_task_refused)
  next
    case (Some k)
    then show ?thesis
      using no_sync by (simp add: patch_task_no_sync cal_calls_def)
  qed
next
  assume no_event: "\<not> js_truthy (case task_at w uid tid of None \<Rightarrow> JUndefined
                  | Some d \<Rightarrow> get_prop d ''calendarEventId'')"
  show "cal_calls (snd (delete_task e uid tid w)) = cal_calls w"
  proof (cases "doc_id w tid")
    case None
    then show ?thesis
      by (simp add: delete_task_refused)
  next
    case (Some k)
    then show ?thesis
      using no_event by (simp add: cal_calls_def delete_task_trace task_at_key)
  qed
qed

theorem no_sync_no_provider_call_witness:
  "\<not> js_truthy (get_prop [(''title'', JStr ''Pay rent'')] ''calendarSync'') \<and>
   cal_calls (snd (post_tasks env_ok ''alice'' [(''title'', JStr ''Pay rent'')] w_alice)) =
     cal_calls w_alice \<and>
   get_prop unsync_body ''calendarSync'' = JBool False \<and>
   cal_calls (snd (patch_task env_ok ''alice'' ''t1'' unsync_body w_alice)) = cal_calls w_alice \<and>
   task_at w_alice ''alice'' ''t1'' = None \<and>
   cal_calls (snd (delete_task env_ok ''alice'' ''t1'' w_alice)) = cal_calls w_alice"
  using no_sync_no_provider_call
      [where body = "[(''title'', JStr ''Pay rent'')]" and e = env_ok and uid = "''alice''"
         and w = w_alice and tid = "''t1''"]
    no_sync_no_provider_call
      [where body = unsync_body and e = env_ok and uid = "''alice''" and w = w_alice
         and tid = "''t1''"]
  by (simp add: get_prop_def patch_syncs_def unsync_body_def task_at_def doc_id_t1 w_alice_def
      w_empty_def)

text \<open>
  The claim as it was stated fails on \<^verbatim>\<open>DELETE\<close>: a task whose \<^verbatim>\<open>calendarSync\<close> is false
  and whose \<^verbatim>\<open>dueDateTime\<close> is null still carries the id of the event created for it
  earlier, and deleting the task deletes that event.
\<close>

theorem delete_calls_provider_for_unsynced_task:
  "get_prop (the (task_at w_unsynced ''alice'' ''t1'')) ''calendarSync'' = JBool False \<and>
   get_prop (the (task_at w_unsynced ''alice'' ''t1'')) ''dueDateTime'' = JNull \<and>
   cal_calls (snd (delete_task env_ok ''alice'' ''t1'' w_unsynced)) =
     cal_calls w_unsynced @ [Delete (JStr ''evt1'')]"
proof -
  have key: "doc_id w_unsynced ''t1'' = Some ''t1''"
    by (simp add: w_unsynced_doc_id doc_id_t1)
  show ?thesis
    by (simp add: w_unsynced_task_at w_unsynced_task w_unsynced_connected
        delete_task_trace [OF key] cal_calls_def get_prop_def)
qed

section \<open>The event of a synchronised task\<close>

text \<open>
  C3, as the code has it, for a connected user. After a \<^verbatim>\<open>POST /tasks\<close> that answers 201
  for a body with a title, a truthy \<^verbatim>\<open>calendarSync\<close> and a \<^verbatim>\<open>dueDateTime\<close>, and after a
  \<^verbatim>\<open>PATCH /tasks/:id\<close> that synchronises and answers 200, the one provider call of the
  request carries the payload of the specification (an insert, or for a task that already
  carried an event id an update of that event), the provider has answered that call with
  an event id, the \<^verbatim>\<open>calendarEventId\<close> of the task document is that very id, and the
  response is that document with its id.
\<close>

theorem synced_task_has_event:
  "(js_truthy (get_prop body ''title'') \<and> js_truthy (get_prop body ''calendarSync'') \<and>
    js_truthy (get_prop body ''dueDateTime'') \<and> connected w uid \<and>
    fst (post_tasks e uid body w) = Resp 201 b \<longrightarrow>
      (let call = Insert (spec_event (get_prop body ''title'') (get_prop body ''description'')
                            (get_prop body ''dueDateTime'') (get_prop body ''timezone''))
       in \<exists>i d. answer (provider e call) = Answered i \<and>
                tasks (snd (post_tasks e uid body w)) (uid, auto_id e) = Some d \<and>
                get_prop d ''calendarEventId'' = JStr i \<and>
                b = Json (JObj (assign [(''id'', JStr (auto_id e))] d)) \<and>
                cal_calls (snd (post_tasks e uid body w)) = cal_calls w @ [call])) \<and>
   (patch_syncs e uid tid body w \<and> connected w uid \<and>
    fst (patch_task e uid tid body w) = Resp 200 b \<longrightarrow>
      (let task = patched_task e uid tid body w;
           event = spec_event (get_prop task ''title'') (get_prop task ''description'')
                     (get_prop task ''dueDateTime'') (get_prop task ''timezone'');
           call = (if js_truthy (get_prop task ''calendarEventId'')
                   then Update (get_prop task ''calendarEventId'') event
                   else Insert event)
       in \<exists>i d. answer (provider e call) = Answered i \<and>
                task_at (snd (patch_task e uid tid body w)) uid tid = Some d \<and>
                get_prop d ''calendarEventId'' = JStr i \<and>
                b = Json (JObj (assign [(''id'', JStr tid)] d)) \<and>
                cal_calls (snd (patch_task e uid tid body w)) = cal_calls w @ [call]))"
proof (intro conjI impI)
  assume "js_truthy (get_prop body ''title'') \<and> js_truthy (get_prop body ''calendarSync'') \<and>
    js_truthy (get_prop body ''dueDateTime'') \<and> connected w uid \<and>
    fst (post_tasks e uid body w) = Resp 201 b"
  then have "\<exists>i d. answer (provider e (Insert (build_event (post_sync_task e body)))) = Answered i \<and>
           tasks (snd (post_tasks e uid body w)) (uid, auto_id e) = Some d \<and>
           get_prop d ''calendarEventId'' = JStr i \<and>
           b = Json (JObj (assign [(''id'', JStr (auto_id e))] d)) \<and>
           cal_calls (snd (post_tasks e uid body w)) =
             cal_calls w @ [Insert (build_event (post_sync_task e body))]"
    by (intro post_tasks_synced) simp_all
  then show "let call = Insert (spec_event (get_prop body ''title'') (get_prop body ''description'')
                            (get_prop body ''dueDateTime'') (get_prop body ''timezone''))
       in \<exists>i d. answer (provider e call) = Answered i \<and>
                tasks (snd (post_tasks e uid body w)) (uid, auto_id e) = Some d \<and>
                get_prop d ''calendarEventId'' = JStr i \<and>
                b = Json (JObj (assign [(''id'', JStr (auto_id e))] d)) \<and>
                cal_calls (snd (post_tasks e uid body w)) = cal_calls w @ [call]"
    by (simp add: Let_def post_event_spec)
next
  let ?task = "patched_task e uid tid body w"
  let ?event = "spec_event (get_prop ?task ''title'') (get_prop ?task ''description'')
                     (get_prop ?task ''dueDateTime'') (get_prop ?task ''timezone'')"
  let ?call = "if js_truthy (get_prop ?task ''calendarEventId'')
                   then Update (get_prop ?task ''calendarEventId'') ?event
                   else Insert ?event"
  assume "patch_syncs e uid tid body w \<and> connected w uid \<and>
    fst (patch_task e uid tid body w) = Resp 200 b"
  then have "\<exists>i d. answer (provider e (upsert_call ?task)) = Answered i \<and>
           task_at (snd (patch_task e uid tid body w)) uid tid = Some d \<and>
           get_prop d ''calendarEventId'' = JStr i \<and>
           b = Json (JObj (assign [(''id'', JStr tid)] d)) \<and>
           cal_calls (snd (patch_task e uid tid body w)) = cal_calls w @ [upsert_call ?task]"
    by (intro patch_task_synced) simp_all
  moreover have "upsert_call ?task = ?call"
    by (simp add: upsert_call_def build_event_spec)
  ultimately show "let task = patched_task e uid tid body w;
           event = spec_event (get_prop task ''title'') (get_prop task ''description'')
                     (get_prop task ''dueDateTime'') (get_prop task ''timezone'');
           call = (if js_truthy (get_prop task ''calendarEventId'')
                   then Update (get_prop task ''calendarEventId'') event
                   else Insert event)
       in \<exists>i d. answer (provider e call) = Answered i \<and>
                task_at (snd (patch_task e uid tid body w)) uid tid = Some d \<and>
                get_prop d ''calendarEventId'' = JStr i \<and>
                b = Json (JObj (assign [(''id'', JStr tid)] d)) \<and>
                cal_calls (snd (patch_task e uid tid body w)) = cal_calls w @ [call]"
    unfolding Let_def by simp
qed

theorem synced_task_has_event_witness:
  "js_truthy (get_prop sync_body ''title'') \<and> js_truthy (get_prop sync_body ''calendarSync'') \<and>
   js_truthy (get_prop sync_body ''dueDateTime'') \<and> connected w_alice ''alice'' \<and>
   fst (post_tasks env_ok ''alice'' sync_body w_alice) =
     Resp 201 (Json (JObj
      [(''id'', JStr ''t1''), (''title'', JStr ''Pay rent''),
       (''description'', JStr []),
       (''dueDateTime'', JStr ''2025-03-01T09:00''),
       (''priority'', JStr ''medium''), (''category'', JStr ''other''),
       (''tags'', JArr []), (''reminder'', JStr ''none''),
       (''calendarSync'', JBool True),
       (''timezone'', JStr ''Africa/Lagos''), (''completed'', JBool False),
       (''createdAt'', JDate 1000), (''updatedAt'', JDate 1001),
       (''calendarEventId'', JStr ''evt1'')])) \<and>
   answer (provider env_ok
     (Insert (spec_event (JStr ''Pay rent'') JUndefined (JStr ''2025-03-01T09:00'') JUndefined))) =
     Answered ''evt1'' \<and>
   get_prop (the (tasks (snd (post_tasks env_ok ''alice'' sync_body w_alice)) (''alice'', ''t1'')))
     ''calendarEventId'' = JStr ''evt1'' \<and>
   cal_calls (snd (post_tasks env_ok ''alice'' sync_body w_alice)) =
     cal_calls w_alice @
     [Insert (spec_event (JStr ''Pay rent'') JUndefined (JStr ''2025-03-01T09:00'') JUndefined)] \<and>
   patch_syncs env_ok ''alice'' ''t1'' resync_body w_unsynced \<and>
   connected w_unsynced ''alice'' \<and>
   fst (patch_task env_ok ''alice'' ''t1'' resync_body w_unsynced) =
     Resp 200 (Json (JObj
      [(''id'', JStr ''t1''), (''title'', JStr ''Pay rent''),
       (''description'', JStr []),
       (''dueDateTime'', JStr ''2025-04-01T10:00''),
       (''priority'', JStr ''medium''), (''category'', JStr ''other''),
       (''tags'', JArr []), (''reminder'', JStr ''none''),
       (''calendarSync'', JBool True),
       (''timezone'', JStr ''Africa/Lagos''), (''completed'', JBool False),
       (''createdAt'', JDate 1000), (''updatedAt'', JDate 1001),
       (''calendarEventId'', JStr ''evt1'')])) \<and>
   answer (provider env_ok
     (Update (JStr ''evt1'')
        (spec_event (JStr ''Pay rent'') (JStr []) (JStr ''2025-04-01T10:00'')
           (JStr ''Africa/Lagos'')))) = Answered ''evt1'' \<and>
   get_prop
     (the (task_at (snd (patch_task env_ok ''alice'' ''t1'' resync_body w_unsynced)) ''alice'' ''t1''))
     ''calendarEventId'' = JStr ''evt1'' \<and>
   cal_calls (snd (patch_task env_ok ''alice'' ''t1'' resync_body w_unsynced)) =
     cal_calls w_unsynced @
     [Update (JStr ''evt1'')
        (spec_event (JStr ''Pay rent'') (JStr []) (JStr ''2025-04-01T10:00'')
           (JStr ''Africa/Lagos''))]"
proof -
  have syncs: "patch_syncs env_ok ''alice'' ''t1'' resync_body w_unsynced"
    by (rule patch_alice_syncs)
  have task: "patched_task env_ok ''alice'' ''t1'' resync_body w_unsynced =
      [(''id'', JStr ''t1''), (''title'', JStr ''Pay rent''),
       (''description'', JStr []), (''dueDateTime'', JStr ''2025-04-01T10:00''),
       (''priority'', JStr ''medium''), (''category'', JStr ''other''),
       (''tags'', JArr []), (''reminder'', JStr ''none''),
       (''calendarSync'', JBool True), (''timezone'', JStr ''Africa/Lagos''),
       (''completed'', JBool False), (''createdAt'', JDate 1000),
       (''updatedAt'', JDate 1000), (''calendarEventId'', JStr ''evt1'')]"
    by (simp add: patched_task_def w_unsynced_task_at with_id_def resync_body_def patch_payload_def
        eval_defs update_conv' env_ok_def)
  have alice: "connected w_alice ''alice''"
    by (simp add: example_defs eval_defs)
  have body: "js_truthy (get_prop sync_body ''title'') \<and>
      js_truthy (get_prop sync_body ''calendarSync'') \<and>
      js_truthy (get_prop sync_body ''dueDateTime'')"
    by (simp add: get_prop_def sync_body_def)
  have fields: "get_prop sync_body ''title'' = JStr ''Pay rent''"
      "get_prop sync_body ''description'' = JUndefined"
      "get_prop sync_body ''dueDateTime'' = JStr ''2025-03-01T09:00''"
      "get_prop sync_body ''timezone'' = JUndefined"
    by (simp_all add: get_prop_def sync_body_def)
  have answers: "\<And>c. answer (provider env_ok c) = Answered ''evt1''"
    by (simp add: env_ok_def)
  have aid: "auto_id env_ok = ''t1''"
    by (simp add: env_ok_def)
  obtain b1 where b1: "fst (post_tasks env_ok ''alice'' sync_body w_alice) = Resp 201 b1"
    using post_alice_response by simp
  obtain b2 where b2: "fst (patch_task env_ok ''alice'' ''t1'' resync_body w_unsynced) = Resp 200 b2"
    using patch_alice_response by simp
  have created: "get_prop
       (the (tasks (snd (post_tasks env_ok ''alice'' sync_body w_alice)) (''alice'', ''t1'')))
       ''calendarEventId'' = JStr ''evt1'' \<and>
     cal_calls (snd (post_tasks env_ok ''alice'' sync_body w_alice)) =
     cal_calls w_alice @
     [Insert (spec_event (JStr ''Pay rent'') JUndefined (JStr ''2025-03-01T09:00'') JUndefined)]"
    using synced_task_has_event
        [where body = sync_body and w = w_alice and uid = "''alice''" and e = env_ok and b = b1
           and tid = "''t1''"]
      body alice b1
    by (auto simp: fields answers aid Let_def)
  have updated: "get_prop
       (the (task_at (snd (patch_task env_ok ''alice'' ''t1'' resync_body w_unsynced))
          ''alice'' ''t1''))
       ''calendarEventId'' = JStr ''evt1'' \<and>
     cal_calls (snd (patch_task env_ok ''alice'' ''t1'' resync_body w_unsynced)) =
     cal_calls w_unsynced @
     [Update (JStr ''evt1'')
        (spec_event (JStr ''Pay rent'') (JStr []) (JStr ''2025-04-01T10:00'')
           (JStr ''Africa/Lagos''))]"
    using synced_task_has_event
        [where body = resync_body and w = w_unsynced and uid = "''alice''" and e = env_ok
           and tid = "''t1''" and b = b2]
      syncs w_unsynced_connected b2
    by (auto simp: task get_prop_def answers Let_def)
  show ?thesis
    using body alice post_alice_response created syncs w_unsynced_connected
      patch_alice_response updated
    by (simp add: answers)
qed

text \<open>
  The claim as it was stated fails for a user who is not connected: the request succeeds
  and the task's \<^verbatim>\<open>calendarEventId\<close> is null.
\<close>

theorem synced_task_without_event_when_not_connected:
  "js_truthy (get_prop sync_body ''calendarSync'') \<and>
   js_truthy (get_prop sync_body ''dueDateTime'') \<and>
   fst (post_tasks env_ok ''bob'' sync_body w_alice) =
     Resp 201 (Json (JObj
      [(''id'', JStr ''t1''), (''title'', JStr ''Pay rent''),
       (''description'', JStr []),
       (''dueDateTime'', JStr ''2025-03-01T09:00''),
       (''priority'', JStr ''medium''), (''category'', JStr ''other''),
       (''tags'', JArr []), (''reminder'', JStr ''none''),
       (''calendarSync'', JBool True),
       (''timezone'', JStr ''Africa/Lagos''), (''completed'', JBool False),
       (''createdAt'', JDate 1000), (''updatedAt'', JDate 1001),
       (''calendarEventId'', JNull)])) \<and>
   cal_calls (snd (post_tasks env_ok ''bob'' sync_body w_alice)) = []"
  by (simp add: handler_defs example_defs eval_defs)

section \<open>Updating the same event\<close>



section \<open>Updating a task that does not exist\<close>




section \<open>The outcomes of the OAuth callback\<close>




section \<open>Merging refreshed tokens\<close>

text \<open>
  C2. A user's credential document holds the access token \<open>A\<close> and the refresh token \<open>R\<close>
  (tokens are strings, and one of the two is not empty, so that \<^verbatim>\<open>calendarClientFor\<close>
  returns a client and registers its listener). When the \<^verbatim>\<open>tokens\<close> event then carries
  only an access token \<open>B\<close>, the stored tokens hold the access token \<open>B\<close> and the refresh
  token \<open>R\<close>; every other stored token field with a plain value keeps it, and every other
  field of the credential document is as it was. This holds whatever listeners earlier
  requests have left on the client.
\<close>

theorem refresh_keeps_refresh_token:
  assumes "secrets w uid = Some d"
    and "get_prop d ''tokens'' = JObj ts"
    and "map_of ts ''access_token'' = Some (JStr A)"
    and "map_of ts ''refresh_token'' = Some (JStr R)"
    and "A \<noteq> [] \<or> R \<noteq> []"
    and "B \<noteq> []"
  shows "let w' = emit_tokens [(''access_token'', JStr B)] (snd (calendarClientFor uid w))
         in fst (calendarClientFor uid w) = Some Calendar \<and>
            js_member (stored_tokens w' uid) ''access_token'' = JStr B \<and>
            js_member (stored_tokens w' uid) ''refresh_token'' = JStr R \<and>
            (\<forall>k v. k \<noteq> ''access_token'' \<and> map_of ts k = Some v \<and> (\<forall>m. v \<noteq> JObj m) \<longrightarrow>
                   js_member (stored_tokens w' uid) k = v) \<and>
            (\<forall>k. k \<noteq> ''tokens'' \<longrightarrow>
                   map_of (case secrets w' uid of None \<Rightarrow> [] | Some d' \<Rightarrow> d') k = map_of d k)"
proof -
  let ?t = "[(''access_token'', JStr B)]"
  let ?w1 = "w\<lparr>credentials := JObj ts, listeners := listeners w @ [(uid, JObj ts)]\<rparr>"
  let ?wm = "fold (on_tokens ?t) (listeners w) ?w1"
  let ?n = "assign ts ?t"
  have stored: "stored_tokens w uid = JObj ts"
    using assms(1,2) by (simp add: stored_tokens_def)
  have conn: "connected w uid"
    using assms(3-5) by (auto simp: connected_def stored js_member_def get_prop_def)
  have client: "calendarClientFor uid w = (Some Calendar, ?w1)"
    using conn by (simp add: calendarClientFor_cases stored)
  have guard: "js_truthy (get_prop ?t ''refresh_token'') \<or> js_truthy (get_prop ?t ''access_token'')"
    using assms(6) by (simp add: get_prop_def)
  have emitted: "emit_tokens ?t ?w1 = on_tokens ?t (uid, JObj ts) ?wm"
    by (simp add: emit_tokens_def)
  have written: "secrets (emit_tokens ?t ?w1) uid =
      Some (set_merge (secrets ?wm uid) [(''tokens'', JObj ?n)])"
    unfolding emitted using on_tokens_written [OF guard] by (simp add: own_props_def)
  then have after: "stored_tokens (emit_tokens ?t ?w1) uid =
      get_prop (set_merge (secrets ?wm uid) [(''tokens'', JObj ?n)]) ''tokens''"
    by (simp add: stored_tokens_def)
  have access: "js_member (stored_tokens (emit_tokens ?t ?w1) uid) ''access_token'' = JStr B"
    unfolding after by (rule merged_token_leaf) (simp_all add: map_of_assign_at)
  have kept: "js_member (stored_tokens (emit_tokens ?t ?w1) uid) k = v"
    if "k \<noteq> ''access_token''" "map_of ts k = Some v" "\<And>m. v \<noteq> JObj m" for k v
    unfolding after using that by (intro merged_token_leaf) (simp_all add: map_of_assign_at)
  have refresh: "js_member (stored_tokens (emit_tokens ?t ?w1) uid) ''refresh_token'' = JStr R"
    using assms(4) by (intro kept) simp_all
  have others: "map_of (case secrets (emit_tokens ?t ?w1) uid of None \<Rightarrow> [] | Some d' \<Rightarrow> d') k =
      map_of d k" if "k \<noteq> ''tokens''" for k
  proof -
    have "map_of (case secrets (emit_tokens ?t ?w1) uid of None \<Rightarrow> [] | Some d' \<Rightarrow> d') k =
        map_of (case secrets ?w1 uid of None \<Rightarrow> [] | Some d' \<Rightarrow> d') k"
      unfolding emit_tokens_def using that by (rule fold_on_tokens_other_fields)
    then show ?thesis
      using assms(1) by simp
  qed
  show ?thesis
    unfolding Let_def client
    using access refresh kept others by simp
qed

theorem refresh_keeps_refresh_token_witness:
  "secrets w_alice ''alice'' = Some [(''tokens'', JObj alice_tokens)] \<and>
   get_prop [(''tokens'', JObj alice_tokens)] ''tokens'' = JObj alice_tokens \<and>
   map_of alice_tokens ''access_token'' = Some (JStr ''A'') \<and>
   map_of alice_tokens ''refresh_token'' = Some (JStr ''R'') \<and>
   fst (calendarClientFor ''alice'' w_alice) = Some Calendar \<and>
   js_member (stored_tokens (emit_tokens [(''access_token'', JStr ''B'')]
       (snd (calendarClientFor ''alice'' w_alice))) ''alice'') ''access_token'' = JStr ''B'' \<and>
   js_member (stored_tokens (emit_tokens [(''access_token'', JStr ''B'')]
       (snd (calendarClientFor ''alice'' w_alice))) ''alice'') ''refresh_token'' = JStr ''R'' \<and>
   map_of (case secrets (emit_tokens [(''access_token'', JStr ''B'')]
                (snd (calendarClientFor ''alice'' w_alice))) ''alice'' of
             None \<Rightarrow> [] | Some d' \<Rightarrow> d') ''scope'' =
     map_of [(''tokens'', JObj alice_tokens)] ''scope''"
proof -
  have stored: "secrets w_alice ''alice'' = Some [(''tokens'', JObj alice_tokens)]"
    by (simp add: w_alice_def w_empty_def)
  have tokens: "get_prop [(''tokens'', JObj alice_tokens)] ''tokens'' = JObj alice_tokens"
    by (simp add: get_prop_def)
  have access: "map_of alice_tokens ''access_token'' = Some (JStr ''A'')"
    and refresh: "map_of alice_tokens ''refresh_token'' = Some (JStr ''R'')"
    by (simp_all add: alice_tokens_def)
  show ?thesis
    using refresh_keeps_refresh_token [OF stored tokens access refresh, of "''B''"]
      stored tokens access refresh
    by (simp add: Let_def)
qed

end
